theory Spec2Isabelle
  imports Complex_Main
begin

section \<open>Data model\<close>

text \<open>
  The program of \<^verbatim>\<open>exercise1.py\<close> plots one function in three windows. Python floats are
  modelled by the reals they approximate (rounding is not modelled); Python ints are
  \<^typ>\<open>int\<close>. The function to draw is a total mapping from reals to reals.
\<close>

datatype error = ZeroDivisionError | ValueError | OverflowError | TypeError

text \<open>
  The three concrete subclasses of \<^verbatim>\<open>FunctionPlotter\<close>. The base class is never
  instantiated: its own \<^verbatim>\<open>calculate_xy\<close> is a stub that each subclass overrides.
\<close>

datatype cls = InfinitePlot | ForwardAnimatingPlot | BidirectionalAnimatingPlot

text \<open>
  What a class body binds: the constant \<^verbatim>\<open>POINTS_PER_CALL\<close> and the list objects created by
  \<^verbatim>\<open>x = []\<close> and \<^verbatim>\<open>y = []\<close>, found under their attribute names. There is one such object
  per class, made when the class statement runs.
\<close>

record class_obj =
  POINTS_PER_CALL :: int
  lists :: "string \<Rightarrow> real list"

type_synonym world = "cls \<Rightarrow> class_obj"

text \<open>
  The attributes \<^verbatim>\<open>__init__\<close> sets on an instance: the function, the resolution, and the
  rendering objects, of which the model keeps the horizontal view limits of the axes
  (\<^verbatim>\<open>self.ax.get_xlim()\<close>) and the data of the line (\<^verbatim>\<open>self.plot\<close>). The field
  \<open>func\<close> is the attribute \<^verbatim>\<open>function\<close>. No instance attribute \<^verbatim>\<open>x\<close> or \<^verbatim>\<open>y\<close> is ever
  assigned.
\<close>

record window =
  klass :: cls
  func :: "real \<Rightarrow> real"
  resolution :: int
  xlim :: "real \<times> real"
  xdata :: "real list"
  ydata :: "real list"

text \<open>
  The state right after the class statements, with \<open>p\<close> for the constant
  \<^verbatim>\<open>POINTS_PER_CALL\<close>: every list is empty. The source has \<open>p = 8\<close>.
\<close>

definition fresh_world :: "int \<Rightarrow> world" where
  "fresh_world p = (\<lambda>c. \<lparr>POINTS_PER_CALL = p, lists = (\<lambda>name. [])\<rparr>)"

definition initial_world :: world where
  "initial_world = fresh_world 8"

section \<open>Operations\<close>

text \<open>
  \<^verbatim>\<open>self.x\<close> and \<^verbatim>\<open>self.y\<close>: the instance has no such attribute of its own, so the lookup
  falls through to the class of the instance and yields the class's list object.
\<close>

definition getattr :: "world \<Rightarrow> window \<Rightarrow> string \<Rightarrow> real list" where
  "getattr s self name = lists (s (klass self)) name"

text \<open>\<^verbatim>\<open>self.<name>.append(v)\<close> and \<^verbatim>\<open>self.<name>.insert(0, v)\<close> mutate that object in place.\<close>

definition attr_append :: "window \<Rightarrow> string \<Rightarrow> real \<Rightarrow> world \<Rightarrow> world" where
  "attr_append self name v s =
     s(klass self := (s (klass self))
        \<lparr>lists := (lists (s (klass self)))(name := getattr s self name @ [v])\<rparr>)"

definition attr_insert0 :: "window \<Rightarrow> string \<Rightarrow> real \<Rightarrow> world \<Rightarrow> world" where
  "attr_insert0 self name v s =
     s(klass self := (s (klass self))
        \<lparr>lists := (lists (s (klass self)))(name := v # getattr s self name)\<rparr>)"

text \<open>Python's \<^verbatim>\<open>/\<close> on two ints: true division, raising on a zero divisor.\<close>

definition truediv :: "int \<Rightarrow> int \<Rightarrow> error + real" where
  "truediv a b = (if b = 0 then Inl ZeroDivisionError else Inr (real_of_int a / real_of_int b))"

text \<open>
  \<^verbatim>\<open>for _ in range(n): body\<close> on the state; an exception in the body ends the loop and
  keeps the state reached so far. With a method call for the body,
  \<open>for_range k (calculate_xy w)\<close> is \<open>k\<close> calls of \<^verbatim>\<open>w.calculate_xy()\<close> in a row.
\<close>

fun for_range :: "nat \<Rightarrow> (world \<Rightarrow> (error + 'a) \<times> world) \<Rightarrow> world \<Rightarrow> (error + unit) \<times> world" where
  "for_range 0 body s = (Inr (), s)"
| "for_range (Suc n) body s =
     (case body s of
        (Inl e, s') \<Rightarrow> (Inl e, s')
      | (Inr _, s') \<Rightarrow> for_range n body s')"

text \<open>
  Modelled from the spec: \<^verbatim>\<open>numpy.linspace(start, stop, num)\<close> is library code outside the
  repository. The spec has it generate \<^verbatim>\<open>resolution\<close> evenly spaced x-values spanning the
  visible range; the model follows the library's documented computation: a negative count is
  rejected, the samples are \<open>start + i * step\<close> with \<open>step = (stop - start) / (num - 1)\<close>
  (\<open>i * (stop - start)\<close> when there is no step to take), and with more than one sample the
  last one is set to \<open>stop\<close>.
\<close>

definition linspace :: "real \<Rightarrow> real \<Rightarrow> int \<Rightarrow> error + real list" where
  "linspace start stop num =
     (if num < 0 then Inl ValueError
      else
        let divisor = num - 1;
            delta = stop - start;
            y = map (\<lambda>i. if divisor > 0 then real i * (delta / real_of_int divisor) else real i * delta)
                  [0..<nat num];
            y = map (\<lambda>v. v + start) y
        in Inr (if num > 1 then y[nat num - 1 := stop] else y))"

text \<open>\<^verbatim>\<open>InfinitePlot.calculate_xy\<close>\<close>

definition InfinitePlot_calculate_xy ::
  "window \<Rightarrow> world \<Rightarrow> (error + real list \<times> real list) \<times> world" where
  "InfinitePlot_calculate_xy self s =
     (let (x_min, x_max) = xlim self in
      case linspace x_min x_max (resolution self) of
        Inl e \<Rightarrow> (Inl e, s)
      | Inr x \<Rightarrow> (Inr (x, map (func self) x), s))"

text \<open>\<^verbatim>\<open>ForwardAnimatingPlot.calculate_xy\<close>: the loop body, then the method.\<close>

definition Forward_body :: "window \<Rightarrow> world \<Rightarrow> (error + unit) \<times> world" where
  "Forward_body self s =
     (case truediv (int (length (getattr s self ''x''))) (resolution self) of
        Inl e \<Rightarrow> (Inl e, s)
      | Inr t \<Rightarrow> (Inr (), attr_append self ''y'' (func self t) (attr_append self ''x'' t s)))"

definition ForwardAnimatingPlot_calculate_xy ::
  "window \<Rightarrow> world \<Rightarrow> (error + real list \<times> real list) \<times> world" where
  "ForwardAnimatingPlot_calculate_xy self s =
     (case for_range (nat (POINTS_PER_CALL (s (klass self)))) (Forward_body self) s of
        (Inl e, s') \<Rightarrow> (Inl e, s')
      | (Inr _, s') \<Rightarrow> (Inr (getattr s' self ''x'', getattr s' self ''y''), s'))"

text \<open>\<^verbatim>\<open>BidirectionalAnimatingPlot.calculate_xy\<close>: the loop body, then the method.\<close>

definition Bidirectional_body :: "window \<Rightarrow> world \<Rightarrow> (error + unit) \<times> world" where
  "Bidirectional_body self s =
     (case truediv (int (length (getattr s self ''x''))) (resolution self) of
        Inl e \<Rightarrow> (Inl e, s)
      | Inr t \<Rightarrow>
          (Inr (),
           attr_insert0 self ''y'' (func self (- t))
             (attr_insert0 self ''x'' (- t)
               (attr_append self ''y'' (func self t)
                 (attr_append self ''x'' t s)))))"

definition BidirectionalAnimatingPlot_calculate_xy ::
  "window \<Rightarrow> world \<Rightarrow> (error + real list \<times> real list) \<times> world" where
  "BidirectionalAnimatingPlot_calculate_xy self s =
     (case for_range (nat (POINTS_PER_CALL (s (klass self)))) (Bidirectional_body self) s of
        (Inl e, s') \<Rightarrow> (Inl e, s')
      | (Inr _, s') \<Rightarrow> (Inr (getattr s' self ''x'', getattr s' self ''y''), s'))"

text \<open>\<^verbatim>\<open>self.calculate_xy()\<close>: the method of the instance's class.\<close>

definition calculate_xy :: "window \<Rightarrow> world \<Rightarrow> (error + real list \<times> real list) \<times> world" where
  "calculate_xy self s =
     (case klass self of
        InfinitePlot \<Rightarrow> InfinitePlot_calculate_xy self s
      | ForwardAnimatingPlot \<Rightarrow> ForwardAnimatingPlot_calculate_xy self s
      | BidirectionalAnimatingPlot \<Rightarrow> BidirectionalAnimatingPlot_calculate_xy self s)"

text \<open>\<^verbatim>\<open>FunctionPlotter.update\<close>: sample, then hand both sequences to the line.\<close>

definition update :: "window \<Rightarrow> world \<Rightarrow> (error + window) \<times> world" where
  "update self s =
     (case calculate_xy self s of
        (Inl e, s') \<Rightarrow> (Inl e, s')
      | (Inr (x, y), s') \<Rightarrow> (Inr (self\<lparr>xdata := x, ydata := y\<rparr>), s'))"

text \<open>
  What a caller may pass for \<^verbatim>\<open>resolution\<close>: a Python int, a finite float (any real
  stands for the float of that value), an infinite float (\<open>True\<close> for \<open>-inf\<close>), the float
  \<^verbatim>\<open>nan\<close>, or some other object, given with the outcome of converting it (\<^verbatim>\<open>None\<close> comes
  with \<^verbatim>\<open>TypeError\<close>, a string with the int it spells or with \<^verbatim>\<open>ValueError\<close>).
\<close>

datatype py_value = PyInt int | PyFloat real | PyFloatInf bool | PyFloatNaN | PyOther "error + int"

text \<open>
  \<^verbatim>\<open>int(v)\<close>: an int is returned as it is, a finite float is truncated toward zero, an
  infinite float raises \<^verbatim>\<open>OverflowError\<close> and \<^verbatim>\<open>nan\<close> raises \<^verbatim>\<open>ValueError\<close>.
\<close>

fun py_int :: "py_value \<Rightarrow> error + int" where
  "py_int (PyInt n) = Inr n"
| "py_int (PyFloat x) = Inr (if 0 \<le> x then \<lfloor>x\<rfloor> else \<lceil>x\<rceil>)"
| "py_int (PyFloatInf negative) = Inl OverflowError"
| "py_int PyFloatNaN = Inl ValueError"
| "py_int (PyOther outcome) = outcome"

text \<open>
  \<^verbatim>\<open>FunctionPlotter.__init__\<close>, run for an instance of class \<open>c\<close>. The attribute
  \<^verbatim>\<open>resolution\<close> is \<^verbatim>\<open>int(resolution)\<close>; when the conversion raises, the constructor ends
  there and no sample is taken. The line is first drawn through the two corner points of
  \<open>borders\<close>; \<open>view\<close> is the horizontal range the rendering library then shows. The
  constructor ends with a first \<^verbatim>\<open>update\<close>.
\<close>

definition init ::
  "cls \<Rightarrow> (real \<Rightarrow> real) \<Rightarrow> py_value \<Rightarrow> (real \<times> real) \<times> (real \<times> real) \<Rightarrow> real \<times> real \<Rightarrow> world
     \<Rightarrow> (error + window) \<times> world" where
  "init c function res borders view s =
     (case py_int res of
        Inl e \<Rightarrow> (Inl e, s)
      | Inr n \<Rightarrow>
          update \<lparr>klass = c, func = function, resolution = n, xlim = view,
                  xdata = [fst (fst borders), snd (fst borders)],
                  ydata = [fst (snd borders), snd (snd borders)]\<rparr> s)"

text \<open>
  An instance of class \<open>c\<close> for the scenarios of the specification: the function
  \<open>t\<^sup>2\<close> at resolution 4.
\<close>

definition scenario_window :: "cls \<Rightarrow> window" where
  "scenario_window c =
     \<lparr>klass = c, func = (\<lambda>t. t * t), resolution = 4, xlim = (0, 1),
      xdata = [0, 1], ydata = [0, 1]\<rparr>"

section \<open>Reading the state after an operation\<close>

lemma getattr_attr_append [simp]:
  "getattr (attr_append w n v s) w' n' =
     (if klass w' = klass w \<and> n' = n then getattr s w' n' @ [v] else getattr s w' n')"
  by (simp add: getattr_def attr_append_def)

lemma getattr_attr_insert0 [simp]:
  "getattr (attr_insert0 w n v s) w' n' =
     (if klass w' = klass w \<and> n' = n then v # getattr s w' n' else getattr s w' n')"
  by (simp add: getattr_def attr_insert0_def)

lemma ppc_attr_append [simp]:
  "POINTS_PER_CALL (attr_append w n v s c) = POINTS_PER_CALL (s c)"
  by (simp add: attr_append_def)

lemma ppc_attr_insert0 [simp]:
  "POINTS_PER_CALL (attr_insert0 w n v s c) = POINTS_PER_CALL (s c)"
  by (simp add: attr_insert0_def)

section \<open>The loops in closed form\<close>

lemma for_range_add:
  "for_range (m + n) body s =
     (case for_range m body s of
        (Inl e, s') \<Rightarrow> (Inl e, s')
      | (Inr u, s') \<Rightarrow> for_range n body s')"
  by (induction m arbitrary: s) (auto split: prod.splits sum.splits)

lemma Forward_body_ok:
  assumes "resolution w \<noteq> 0"
  shows "Forward_body w s =
    (Inr (), attr_append w ''y'' (func w (real (length (getattr s w ''x'')) / real_of_int (resolution w)))
       (attr_append w ''x'' (real (length (getattr s w ''x'')) / real_of_int (resolution w)) s))"
  using assms by (simp add: Forward_body_def truediv_def)

lemma for_range_Suc_Forward:
  assumes "resolution w \<noteq> 0"
  shows "for_range (Suc n) (Forward_body w) s =
    for_range n (Forward_body w)
      (attr_append w ''y'' (func w (real (length (getattr s w ''x'')) / real_of_int (resolution w)))
        (attr_append w ''x'' (real (length (getattr s w ''x'')) / real_of_int (resolution w)) s))"
proof -
  note step = Forward_body_ok [OF assms, of s]
  show ?thesis by (simp add: step)
qed

lemma upt_Suc_front: "[0..<Suc n] = 0 # map Suc [0..<n]"
  by (simp add: upt_conv_Cons map_Suc_upt del: upt_Suc)

lemma Forward_loop:
  assumes "resolution w \<noteq> 0"
  shows "fst (for_range n (Forward_body w) s) = Inr ()"
    and "getattr (snd (for_range n (Forward_body w) s)) w ''x'' =
           getattr s w ''x'' @
           map (\<lambda>i. real (length (getattr s w ''x'') + i) / real_of_int (resolution w)) [0..<n]"
    and "getattr (snd (for_range n (Forward_body w) s)) w ''y'' =
           getattr s w ''y'' @
           map (\<lambda>i. func w (real (length (getattr s w ''x'') + i) / real_of_int (resolution w))) [0..<n]"
    and "POINTS_PER_CALL (snd (for_range n (Forward_body w) s) c) = POINTS_PER_CALL (s c)"
proof (induction n arbitrary: s)
  case 0
  { case 1 show ?case by simp next
    case 2 show ?case by simp next
    case 3 show ?case by simp next
    case 4 show ?case by simp }
next
  case (Suc n)
  note S = for_range_Suc_Forward [OF assms]
  { case 1 show ?case by (simp only: S Suc.IH) next
    case 2 show ?case by (simp add: S Suc.IH upt_Suc_front comp_def ac_simps del: upt_Suc for_range.simps) next
    case 3 show ?case by (simp add: S Suc.IH upt_Suc_front comp_def ac_simps del: upt_Suc for_range.simps) next
    case 4 show ?case by (simp add: S Suc.IH del: for_range.simps) }
qed


lemma Bidirectional_body_ok:
  assumes "resolution w \<noteq> 0"
  shows "Bidirectional_body w s =
    (Inr (),
     attr_insert0 w ''y'' (func w (- (real (length (getattr s w ''x'')) / real_of_int (resolution w))))
       (attr_insert0 w ''x'' (- (real (length (getattr s w ''x'')) / real_of_int (resolution w)))
         (attr_append w ''y'' (func w (real (length (getattr s w ''x'')) / real_of_int (resolution w)))
           (attr_append w ''x'' (real (length (getattr s w ''x'')) / real_of_int (resolution w)) s))))"
  using assms by (simp add: Bidirectional_body_def truediv_def)

lemma for_range_Suc_Bidirectional:
  assumes "resolution w \<noteq> 0"
  shows "for_range (Suc n) (Bidirectional_body w) s =
    for_range n (Bidirectional_body w)
     (attr_insert0 w ''y'' (func w (- (real (length (getattr s w ''x'')) / real_of_int (resolution w))))
       (attr_insert0 w ''x'' (- (real (length (getattr s w ''x'')) / real_of_int (resolution w)))
         (attr_append w ''y'' (func w (real (length (getattr s w ''x'')) / real_of_int (resolution w)))
           (attr_append w ''x'' (real (length (getattr s w ''x'')) / real_of_int (resolution w)) s))))"
proof -
  note step = Bidirectional_body_ok [OF assms, of s]
  show ?thesis by (simp add: step)
qed

lemma Bidirectional_loop:
  assumes "resolution w \<noteq> 0"
  shows "fst (for_range n (Bidirectional_body w) s) = Inr ()"
    and "getattr (snd (for_range n (Bidirectional_body w) s)) w ''x'' =
           map (\<lambda>i. - (real (length (getattr s w ''x'') + 2 * i) / real_of_int (resolution w))) (rev [0..<n]) @
           getattr s w ''x'' @
           map (\<lambda>i. real (length (getattr s w ''x'') + 2 * i) / real_of_int (resolution w)) [0..<n]"
    and "getattr (snd (for_range n (Bidirectional_body w) s)) w ''y'' =
           map (\<lambda>i. func w (- (real (length (getattr s w ''x'') + 2 * i) / real_of_int (resolution w)))) (rev [0..<n]) @
           getattr s w ''y'' @
           map (\<lambda>i. func w (real (length (getattr s w ''x'') + 2 * i) / real_of_int (resolution w))) [0..<n]"
    and "POINTS_PER_CALL (snd (for_range n (Bidirectional_body w) s) c) = POINTS_PER_CALL (s c)"
proof (induction n arbitrary: s)
  case 0
  { case 1 show ?case by simp next
    case 2 show ?case by simp next
    case 3 show ?case by simp next
    case 4 show ?case by simp }
next
  case (Suc n)
  note S = for_range_Suc_Bidirectional [OF assms]
  { case 1 show ?case by (simp only: S Suc.IH) next
    case 2 show ?case by (simp add: S Suc.IH upt_Suc_front rev_map comp_def ac_simps del: upt_Suc for_range.simps) next
    case 3 show ?case by (simp add: S Suc.IH upt_Suc_front rev_map comp_def ac_simps del: upt_Suc for_range.simps) next
    case 4 show ?case by (simp add: S Suc.IH del: for_range.simps) }
qed

section \<open>Successive calls are one long loop\<close>

lemma for_range_ok_add:
  assumes "\<And>m s. fst (for_range m body s) = Inr ()"
  shows "for_range (m + n) body s = for_range n body (snd (for_range m body s))"
proof -
  obtain r s' where r: "for_range m body s = (r, s')" by (cases "for_range m body s")
  with assms [of m s] have "r = Inr ()" by simp
  with r show ?thesis by (simp add: for_range_add)
qed

lemma calls_Forward:
  assumes "klass w = ForwardAnimatingPlot" "resolution w \<noteq> 0"
  shows "for_range k (calculate_xy w) s =
         for_range (k * nat (POINTS_PER_CALL (s ForwardAnimatingPlot))) (Forward_body w) s"
proof (induction k arbitrary: s)
  case 0
  show ?case by simp
next
  case (Suc k)
  let ?p = "nat (POINTS_PER_CALL (s ForwardAnimatingPlot))"
  let ?s1 = "snd (for_range ?p (Forward_body w) s)"
  have ok: "\<And>m s. fst (for_range m (Forward_body w) s) = Inr ()"
    by (rule Forward_loop(1) [OF assms(2)])
  have c: "calculate_xy w s = (Inr (getattr ?s1 w ''x'', getattr ?s1 w ''y''), ?s1)"
    using ok [of ?p s]
    by (cases "for_range ?p (Forward_body w) s")
       (simp add: calculate_xy_def ForwardAnimatingPlot_calculate_xy_def assms(1))
  have p: "POINTS_PER_CALL (?s1 ForwardAnimatingPlot) = POINTS_PER_CALL (s ForwardAnimatingPlot)"
    by (rule Forward_loop(4) [OF assms(2)])
  have "for_range (Suc k) (calculate_xy w) s = for_range k (calculate_xy w) ?s1"
    using c by simp
  also have "\<dots> = for_range (k * ?p) (Forward_body w) ?s1"
    by (simp only: Suc.IH p)
  also have "\<dots> = for_range (?p + k * ?p) (Forward_body w) s"
    by (rule for_range_ok_add [OF ok, symmetric])
  finally show ?case by simp
qed

lemma calls_Bidirectional:
  assumes "klass w = BidirectionalAnimatingPlot" "resolution w \<noteq> 0"
  shows "for_range k (calculate_xy w) s =
         for_range (k * nat (POINTS_PER_CALL (s BidirectionalAnimatingPlot))) (Bidirectional_body w) s"
proof (induction k arbitrary: s)
  case 0
  show ?case by simp
next
  case (Suc k)
  let ?p = "nat (POINTS_PER_CALL (s BidirectionalAnimatingPlot))"
  let ?s1 = "snd (for_range ?p (Bidirectional_body w) s)"
  have ok: "\<And>m s. fst (for_range m (Bidirectional_body w) s) = Inr ()"
    by (rule Bidirectional_loop(1) [OF assms(2)])
  have c: "calculate_xy w s = (Inr (getattr ?s1 w ''x'', getattr ?s1 w ''y''), ?s1)"
    using ok [of ?p s]
    by (cases "for_range ?p (Bidirectional_body w) s")
       (simp add: calculate_xy_def BidirectionalAnimatingPlot_calculate_xy_def assms(1))
  have p: "POINTS_PER_CALL (?s1 BidirectionalAnimatingPlot) = POINTS_PER_CALL (s BidirectionalAnimatingPlot)"
    by (rule Bidirectional_loop(4) [OF assms(2)])
  have "for_range (Suc k) (calculate_xy w) s = for_range k (calculate_xy w) ?s1"
    using c by simp
  also have "\<dots> = for_range (k * ?p) (Bidirectional_body w) ?s1"
    by (simp only: Suc.IH p)
  also have "\<dots> = for_range (?p + k * ?p) (Bidirectional_body w) s"
    by (rule for_range_ok_add [OF ok, symmetric])
  finally show ?case by simp
qed


section \<open>Forward-growing strategy\<close>

text \<open>
  C1. Start from empty lists, a positive resolution and \<open>p \<ge> 1\<close> points per call. Then
  \<open>k\<close> successive calls of \<^verbatim>\<open>calculate_xy\<close> on a \<^verbatim>\<open>ForwardAnimatingPlot\<close> all return, and
  afterwards the accumulated sequence has exactly \<open>k \<sqdot> p\<close> points, the \<open>n\<close>-th of them
  (counted from 0) with \<open>x = n / resolution\<close> and \<open>y = function(x)\<close>. The number of calls may
  also be 0.
\<close>

theorem forward_growing_sequence:
  assumes "klass w = ForwardAnimatingPlot"
      and "0 < resolution w"
      and "1 \<le> POINTS_PER_CALL (s ForwardAnimatingPlot)"
      and "getattr s w ''x'' = []" and "getattr s w ''y'' = []"
  shows "fst (for_range k (calculate_xy w) s) = Inr () \<and>
         (let s' = snd (for_range k (calculate_xy w) s);
              xs = getattr s' w ''x''; ys = getattr s' w ''y''
          in int (length xs) = int k * POINTS_PER_CALL (s ForwardAnimatingPlot) \<and>
             length ys = length xs \<and>
             (\<forall>n < length xs. xs ! n = real n / real_of_int (resolution w) \<and>
                               ys ! n = func w (xs ! n)))"
proof -
  let ?n = "k * nat (POINTS_PER_CALL (s ForwardAnimatingPlot))"
  have r: "resolution w \<noteq> 0" using assms(2) by simp
  have flat: "for_range k (calculate_xy w) s = for_range ?n (Forward_body w) s"
    by (rule calls_Forward [OF assms(1) r])
  have ok: "fst (for_range ?n (Forward_body w) s) = Inr ()"
    by (rule Forward_loop(1) [OF r])
  have xs: "getattr (snd (for_range ?n (Forward_body w) s)) w ''x'' =
            map (\<lambda>i. real i / real_of_int (resolution w)) [0..<?n]"
    using Forward_loop(2) [OF r, of ?n s] by (simp add: assms(4))
  have ys: "getattr (snd (for_range ?n (Forward_body w) s)) w ''y'' =
            map (\<lambda>i. func w (real i / real_of_int (resolution w))) [0..<?n]"
    using Forward_loop(3) [OF r, of ?n s] by (simp add: assms(4,5))
  have len: "int ?n = int k * POINTS_PER_CALL (s ForwardAnimatingPlot)"
    using assms(3) by simp
  show ?thesis
    unfolding flat Let_def xs ys using ok len by simp
qed

theorem forward_growing_sequence_witness:
  "klass (scenario_window ForwardAnimatingPlot) = ForwardAnimatingPlot \<and>
   0 < resolution (scenario_window ForwardAnimatingPlot) \<and>
   1 \<le> POINTS_PER_CALL (fresh_world 4 ForwardAnimatingPlot) \<and>
   getattr (fresh_world 4) (scenario_window ForwardAnimatingPlot) ''x'' = [] \<and>
   getattr (fresh_world 4) (scenario_window ForwardAnimatingPlot) ''y'' = [] \<and>
   length (getattr (snd (for_range 3 (calculate_xy (scenario_window ForwardAnimatingPlot))
                           (fresh_world 4)))
             (scenario_window ForwardAnimatingPlot) ''x'') = 12"
proof -
  let ?w = "scenario_window ForwardAnimatingPlot"
  let ?s = "fresh_world 4"
  have h1: "klass ?w = ForwardAnimatingPlot" by (simp add: scenario_window_def)
  have h2: "0 < resolution ?w" by (simp add: scenario_window_def)
  have h3: "1 \<le> POINTS_PER_CALL (?s ForwardAnimatingPlot)" by (simp add: fresh_world_def)
  have h4: "getattr ?s ?w ''x'' = []" by (simp add: fresh_world_def getattr_def)
  have h5: "getattr ?s ?w ''y'' = []" by (simp add: fresh_world_def getattr_def)
  have p: "POINTS_PER_CALL (?s ForwardAnimatingPlot) = 4" by (simp add: fresh_world_def)
  from forward_growing_sequence [OF h1 h2 h3 h4 h5, of 3]
  have "int (length (getattr (snd (for_range 3 (calculate_xy ?w) ?s)) ?w ''x'')) = 12"
    by (simp add: Let_def p)
  then have "length (getattr (snd (for_range 3 (calculate_xy ?w) ?s)) ?w ''x'') = 12"
    by linarith
  with h1 h2 h3 h4 h5 show ?thesis by blast
qed

text \<open>
  The forward scenario of the specification: \<open>f(t) = t\<^sup>2\<close>, resolution 4, four points
  per call, one call.
\<close>

lemma forward_scenario:
  "fst (calculate_xy (scenario_window ForwardAnimatingPlot) (fresh_world 4)) =
     Inr ([0, 1 / 4, 1 / 2, 3 / 4], [0, 1 / 16, 1 / 4, 9 / 16])"
  by (simp add: scenario_window_def fresh_world_def calculate_xy_def
        ForwardAnimatingPlot_calculate_xy_def Forward_body_def truediv_def
        attr_append_def getattr_def eval_nat_numeral)

section \<open>Bidirectional-growing strategy\<close>

lemma Bidirectional_calls:
  assumes "klass w = BidirectionalAnimatingPlot"
      and "resolution w \<noteq> 0"
      and "getattr s w ''x'' = []" and "getattr s w ''y'' = []"
  shows "fst (for_range k (calculate_xy w) s) = Inr ()"
    and "getattr (snd (for_range k (calculate_xy w) s)) w ''x'' =
           map (\<lambda>i. - (real (2 * i) / real_of_int (resolution w)))
             (rev [0..<k * nat (POINTS_PER_CALL (s BidirectionalAnimatingPlot))]) @
           map (\<lambda>i. real (2 * i) / real_of_int (resolution w))
             [0..<k * nat (POINTS_PER_CALL (s BidirectionalAnimatingPlot))]"
    and "getattr (snd (for_range k (calculate_xy w) s)) w ''y'' =
           map (\<lambda>i. func w (- (real (2 * i) / real_of_int (resolution w))))
             (rev [0..<k * nat (POINTS_PER_CALL (s BidirectionalAnimatingPlot))]) @
           map (\<lambda>i. func w (real (2 * i) / real_of_int (resolution w)))
             [0..<k * nat (POINTS_PER_CALL (s BidirectionalAnimatingPlot))]"
proof -
  let ?n = "k * nat (POINTS_PER_CALL (s BidirectionalAnimatingPlot))"
  have flat: "for_range k (calculate_xy w) s = for_range ?n (Bidirectional_body w) s"
    by (rule calls_Bidirectional [OF assms(1,2)])
  show "fst (for_range k (calculate_xy w) s) = Inr ()"
    unfolding flat by (rule Bidirectional_loop(1) [OF assms(2)])
  show "getattr (snd (for_range k (calculate_xy w) s)) w ''x'' =
           map (\<lambda>i. - (real (2 * i) / real_of_int (resolution w))) (rev [0..<?n]) @
           map (\<lambda>i. real (2 * i) / real_of_int (resolution w)) [0..<?n]"
    unfolding flat using Bidirectional_loop(2) [OF assms(2), of ?n s] by (simp add: assms(3))
  show "getattr (snd (for_range k (calculate_xy w) s)) w ''y'' =
           map (\<lambda>i. func w (- (real (2 * i) / real_of_int (resolution w)))) (rev [0..<?n]) @
           map (\<lambda>i. func w (real (2 * i) / real_of_int (resolution w))) [0..<?n]"
    unfolding flat using Bidirectional_loop(3) [OF assms(2), of ?n s] by (simp add: assms(3,4))
qed

lemma mirrored_rev:
  fixes h :: "nat \<Rightarrow> real"
  shows "rev (map uminus (map (\<lambda>i. - h i) (rev [0..<n]) @ map h [0..<n])) =
         map (\<lambda>i. - h i) (rev [0..<n]) @ map h [0..<n]"
  by (simp add: rev_map comp_def)

lemma mirrored_order:
  fixes r :: real
  assumes "0 < r"
  shows "sorted_wrt (<) (map (\<lambda>i. - (real (2 * i) / r)) (rev [0..<n]))"
    and "sorted_wrt (<) (map (\<lambda>i. real (2 * i) / r) [0..<n])"
    and "sorted (map (\<lambda>i. - (real (2 * i) / r)) (rev [0..<n]) @ map (\<lambda>i. real (2 * i) / r) [0..<n])"
proof -
  have mono: "real (2 * i) / r < real (2 * j) / r" if "i < j" for i j :: nat
    using that assms by (simp add: divide_strict_right_mono)
  have up: "sorted_wrt (\<lambda>i j. real (2 * i) / r < real (2 * j) / r) [0..<n]"
    by (rule sorted_wrt_mono_rel [OF _ sorted_wrt_upt]) (rule mono)
  show right: "sorted_wrt (<) (map (\<lambda>i. real (2 * i) / r) [0..<n])"
    using up by (simp add: sorted_wrt_map)
  show left: "sorted_wrt (<) (map (\<lambda>i. - (real (2 * i) / r)) (rev [0..<n]))"
    using up by (simp add: sorted_wrt_map sorted_wrt_rev)
  have "a \<le> b"
    if "a \<in> set (map (\<lambda>i. - (real (2 * i) / r)) (rev [0..<n]))"
       and "b \<in> set (map (\<lambda>i. real (2 * i) / r) [0..<n])" for a b
  proof -
    from that(1) obtain i where a: "a = - (real (2 * i) / r)" by auto
    from that(2) obtain j where b: "b = real (2 * j) / r" by auto
    have "a \<le> 0" unfolding a using assms by simp
    moreover have "0 \<le> b" unfolding b using assms by simp
    ultimately show ?thesis by simp
  qed
  with left right show "sorted (map (\<lambda>i. - (real (2 * i) / r)) (rev [0..<n]) @ map (\<lambda>i. real (2 * i) / r) [0..<n])"
    by (simp add: sorted_append strict_sorted_imp_sorted)
qed

lemma mirrored_middle:
  fixes h :: "nat \<Rightarrow> real"
  assumes "0 < n"
  shows "(map (\<lambda>i. - h i) (rev [0..<n]) @ map h [0..<n]) ! (n - 1) = - h 0"
    and "(map (\<lambda>i. - h i) (rev [0..<n]) @ map h [0..<n]) ! n = h 0"
  using assms by (simp_all add: nth_append rev_nth)

text \<open>
  C2. Start from empty lists, a positive resolution and \<open>p \<ge> 1\<close> points per call. Then
  \<open>k\<close> successive calls of \<^verbatim>\<open>calculate_xy\<close> on a \<^verbatim>\<open>BidirectionalAnimatingPlot\<close> all
  return, and afterwards the accumulated sequence has exactly \<open>2 \<sqdot> k \<sqdot> p\<close> points and is
  symmetric: with every x-value present its negation is present too. The sequence is even
  its own mirror image: negating every entry and reading backwards gives it back. (The
  value 0 is its own negation and occurs twice, see C3.)
\<close>

theorem bidirectional_growing_symmetric:
  assumes "klass w = BidirectionalAnimatingPlot"
      and "0 < resolution w"
      and "1 \<le> POINTS_PER_CALL (s BidirectionalAnimatingPlot)"
      and "getattr s w ''x'' = []" and "getattr s w ''y'' = []"
  shows "fst (for_range k (calculate_xy w) s) = Inr () \<and>
         (let s' = snd (for_range k (calculate_xy w) s);
              xs = getattr s' w ''x''; ys = getattr s' w ''y''
          in int (length xs) = 2 * int k * POINTS_PER_CALL (s BidirectionalAnimatingPlot) \<and>
             length ys = length xs \<and>
             (\<forall>v \<in> set xs. - v \<in> set xs) \<and>
             rev (map uminus xs) = xs)"
proof -
  let ?n = "k * nat (POINTS_PER_CALL (s BidirectionalAnimatingPlot))"
  let ?h = "\<lambda>i. real (2 * i) / real_of_int (resolution w)"
  let ?xs = "getattr (snd (for_range k (calculate_xy w) s)) w ''x''"
  have r: "resolution w \<noteq> 0" using assms(2) by simp
  note B = Bidirectional_calls [OF assms(1) r assms(4,5), of k]
  have xs: "?xs = map (\<lambda>i. - ?h i) (rev [0..<?n]) @ map ?h [0..<?n]"
    by (rule B(2))
  have len: "int (length ?xs) = 2 * int k * POINTS_PER_CALL (s BidirectionalAnimatingPlot)"
    unfolding xs using assms(3) by simp
  have leny: "length (getattr (snd (for_range k (calculate_xy w) s)) w ''y'') = length ?xs"
    unfolding B(2) B(3) by simp
  have mir: "rev (map uminus ?xs) = ?xs"
    unfolding xs by (rule mirrored_rev)
  have "- v \<in> set ?xs" if "v \<in> set ?xs" for v
  proof -
    from that have "- v \<in> set (rev (map uminus ?xs))" by simp
    then show ?thesis by (simp only: mir)
  qed
  with B(1) len leny mir show ?thesis by (simp add: Let_def)
qed

theorem bidirectional_growing_symmetric_witness:
  "klass (scenario_window BidirectionalAnimatingPlot) = BidirectionalAnimatingPlot \<and>
   0 < resolution (scenario_window BidirectionalAnimatingPlot) \<and>
   1 \<le> POINTS_PER_CALL (fresh_world 2 BidirectionalAnimatingPlot) \<and>
   getattr (fresh_world 2) (scenario_window BidirectionalAnimatingPlot) ''x'' = [] \<and>
   getattr (fresh_world 2) (scenario_window BidirectionalAnimatingPlot) ''y'' = [] \<and>
   length (getattr (snd (for_range 3 (calculate_xy (scenario_window BidirectionalAnimatingPlot))
                           (fresh_world 2)))
             (scenario_window BidirectionalAnimatingPlot) ''x'') = 12"
proof -
  let ?w = "scenario_window BidirectionalAnimatingPlot"
  let ?s = "fresh_world 2"
  have h1: "klass ?w = BidirectionalAnimatingPlot" by (simp add: scenario_window_def)
  have h2: "0 < resolution ?w" by (simp add: scenario_window_def)
  have h3: "1 \<le> POINTS_PER_CALL (?s BidirectionalAnimatingPlot)" by (simp add: fresh_world_def)
  have h4: "getattr ?s ?w ''x'' = []" by (simp add: fresh_world_def getattr_def)
  have h5: "getattr ?s ?w ''y'' = []" by (simp add: fresh_world_def getattr_def)
  have p: "POINTS_PER_CALL (?s BidirectionalAnimatingPlot) = 2" by (simp add: fresh_world_def)
  from bidirectional_growing_symmetric [OF h1 h2 h3 h4 h5, of 3]
  have "int (length (getattr (snd (for_range 3 (calculate_xy ?w) ?s)) ?w ''x'')) = 12"
    by (simp add: Let_def p)
  then have "length (getattr (snd (for_range 3 (calculate_xy ?w) ?s)) ?w ''x'') = 12"
    by linarith
  with h1 h2 h3 h4 h5 show ?thesis by blast
qed

text \<open>
  C3, as amended. The x-values of a \<^verbatim>\<open>BidirectionalAnimatingPlot\<close> are non-decreasing from
  left to right after every iteration of the loop and after every call; they are strictly
  increasing within the prepended half and within the appended half of the sequence; and
  once a call has been made the two middle entries are both 0, so the whole sequence is
  not strictly increasing.
\<close>

theorem bidirectional_order:
  assumes "klass w = BidirectionalAnimatingPlot"
      and "0 < resolution w"
      and "1 \<le> POINTS_PER_CALL (s BidirectionalAnimatingPlot)"
      and "getattr s w ''x'' = []" and "getattr s w ''y'' = []"
  shows "(\<forall>n. sorted (getattr (snd (for_range n (Bidirectional_body w) s)) w ''x'')) \<and>
         (let xs = getattr (snd (for_range k (calculate_xy w) s)) w ''x'';
              m = length xs div 2
          in sorted xs \<and> sorted_wrt (<) (take m xs) \<and> sorted_wrt (<) (drop m xs) \<and>
             (1 \<le> k \<longrightarrow> xs ! (m - 1) = 0 \<and> xs ! m = 0))"
proof -
  let ?n = "k * nat (POINTS_PER_CALL (s BidirectionalAnimatingPlot))"
  let ?r = "real_of_int (resolution w)"
  let ?h = "\<lambda>i. real (2 * i) / ?r"
  let ?xs = "getattr (snd (for_range k (calculate_xy w) s)) w ''x''"
  have r: "resolution w \<noteq> 0" and r0: "0 < ?r" using assms(2) by simp_all
  have xs: "?xs = map (\<lambda>i. - ?h i) (rev [0..<?n]) @ map ?h [0..<?n]"
    by (rule Bidirectional_calls(2) [OF assms(1) r assms(4,5)])
  have m: "length ?xs div 2 = ?n" unfolding xs by simp
  have tk: "take ?n ?xs = map (\<lambda>i. - ?h i) (rev [0..<?n])" unfolding xs by simp
  have dr: "drop ?n ?xs = map ?h [0..<?n]" unfolding xs by simp
  have s1: "sorted ?xs" unfolding xs by (rule mirrored_order(3) [OF r0])
  have s2: "sorted_wrt (<) (take ?n ?xs)" unfolding tk by (rule mirrored_order(1) [OF r0])
  have s3: "sorted_wrt (<) (drop ?n ?xs)" unfolding dr by (rule mirrored_order(2) [OF r0])
  have mid: "?xs ! (?n - 1) = 0 \<and> ?xs ! ?n = 0" if "1 \<le> k"
  proof -
    from that assms(3) have "0 < ?n" by simp
    from mirrored_middle [OF this, of ?h] show ?thesis unfolding xs by simp
  qed
  have it: "sorted (getattr (snd (for_range n (Bidirectional_body w) s)) w ''x'')" for n
    using Bidirectional_loop(2) [OF r, of n s] mirrored_order(3) [OF r0, of n]
    by (simp add: assms(4))
  from it s1 s2 s3 mid show ?thesis by (simp add: Let_def m)
qed

theorem bidirectional_order_witness:
  "klass (scenario_window BidirectionalAnimatingPlot) = BidirectionalAnimatingPlot \<and>
   0 < resolution (scenario_window BidirectionalAnimatingPlot) \<and>
   1 \<le> POINTS_PER_CALL (fresh_world 2 BidirectionalAnimatingPlot) \<and>
   getattr (fresh_world 2) (scenario_window BidirectionalAnimatingPlot) ''x'' = [] \<and>
   getattr (fresh_world 2) (scenario_window BidirectionalAnimatingPlot) ''y'' = [] \<and>
   sorted (getattr (snd (for_range 3 (calculate_xy (scenario_window BidirectionalAnimatingPlot))
                           (fresh_world 2)))
             (scenario_window BidirectionalAnimatingPlot) ''x'')"
proof -
  let ?w = "scenario_window BidirectionalAnimatingPlot"
  let ?s = "fresh_world 2"
  have h1: "klass ?w = BidirectionalAnimatingPlot" by (simp add: scenario_window_def)
  have h2: "0 < resolution ?w" by (simp add: scenario_window_def)
  have h3: "1 \<le> POINTS_PER_CALL (?s BidirectionalAnimatingPlot)" by (simp add: fresh_world_def)
  have h4: "getattr ?s ?w ''x'' = []" by (simp add: fresh_world_def getattr_def)
  have h5: "getattr ?s ?w ''y'' = []" by (simp add: fresh_world_def getattr_def)
  have p: "POINTS_PER_CALL (?s BidirectionalAnimatingPlot) = 2" by (simp add: fresh_world_def)
  from bidirectional_order [OF h1 h2 h3 h4 h5, of 3]
  have "sorted (getattr (snd (for_range 3 (calculate_xy ?w) ?s)) ?w ''x'')"
    by (simp add: Let_def)
  with h1 h2 h3 h4 h5 show ?thesis by blast
qed

text \<open>
  C3 as stated fails: after one call at resolution 4 with two points per call the x-values
  are \<open>-1/2, 0, 0, 1/2\<close>, which are not strictly increasing.
\<close>

theorem bidirectional_order_counterexample:
  "\<not> sorted_wrt (<)
       (getattr (snd (for_range 1 (calculate_xy (scenario_window BidirectionalAnimatingPlot))
                        (fresh_world 2)))
          (scenario_window BidirectionalAnimatingPlot) ''x'')"
  by (simp add: scenario_window_def fresh_world_def calculate_xy_def
      BidirectionalAnimatingPlot_calculate_xy_def Bidirectional_body_def truediv_def
      attr_append_def attr_insert0_def getattr_def numeral_2_eq_2)

text \<open>
  C10. In a \<^verbatim>\<open>BidirectionalAnimatingPlot\<close> that starts from empty lists, the \<open>i\<close>-th
  iteration (counted from 0) appends \<open>x = 2 \<sqdot> i / resolution\<close>. After \<open>k\<close> calls the right
  half of the sequence holds these values in order, across the calls, and neighbouring
  ones differ by \<open>2 / resolution\<close>.
\<close>

theorem bidirectional_step_width:
  assumes "klass w = BidirectionalAnimatingPlot"
      and "0 < resolution w"
      and "1 \<le> POINTS_PER_CALL (s BidirectionalAnimatingPlot)"
      and "getattr s w ''x'' = []" and "getattr s w ''y'' = []"
  shows "(\<forall>i. last (getattr (snd (for_range (Suc i) (Bidirectional_body w) s)) w ''x'') =
                real (2 * i) / real_of_int (resolution w)) \<and>
         (let xs = getattr (snd (for_range k (calculate_xy w) s)) w ''x'';
              n = length xs div 2
          in int n = int k * POINTS_PER_CALL (s BidirectionalAnimatingPlot) \<and>
             (\<forall>i < n. xs ! (n + i) = real (2 * i) / real_of_int (resolution w)) \<and>
             (\<forall>i. Suc i < n \<longrightarrow>
                xs ! (n + Suc i) - xs ! (n + i) = 2 / real_of_int (resolution w)))"
proof -
  let ?n = "k * nat (POINTS_PER_CALL (s BidirectionalAnimatingPlot))"
  let ?r = "real_of_int (resolution w)"
  let ?h = "\<lambda>i. real (2 * i) / ?r"
  let ?xs = "getattr (snd (for_range k (calculate_xy w) s)) w ''x''"
  have r: "resolution w \<noteq> 0" using assms(2) by simp
  have it: "last (getattr (snd (for_range (Suc i) (Bidirectional_body w) s)) w ''x'') = ?h i" for i
    using Bidirectional_loop(2) [OF r, of "Suc i" s] by (simp add: assms(4))
  have xs: "?xs = map (\<lambda>i. - ?h i) (rev [0..<?n]) @ map ?h [0..<?n]"
    by (rule Bidirectional_calls(2) [OF assms(1) r assms(4,5)])
  have m: "length ?xs div 2 = ?n" unfolding xs by simp
  have n: "int ?n = int k * POINTS_PER_CALL (s BidirectionalAnimatingPlot)"
    using assms(3) by simp
  have at: "?xs ! (?n + i) = ?h i" if "i < ?n" for i
    unfolding xs using that by (simp add: nth_append)
  have diff: "?xs ! (?n + Suc i) - ?xs ! (?n + i) = 2 / ?r" if "Suc i < ?n" for i
  proof -
    from that have "i < ?n" by simp
    from at [OF that] at [OF this]
    have "?xs ! (?n + Suc i) - ?xs ! (?n + i) = real (2 * Suc i) / ?r - real (2 * i) / ?r"
      by simp
    also have "\<dots> = 2 / ?r"
      by (simp add: diff_divide_distrib [symmetric])
    finally show ?thesis .
  qed
  from it n at diff show ?thesis unfolding Let_def m by blast
qed

theorem bidirectional_step_width_witness:
  "klass (scenario_window BidirectionalAnimatingPlot) = BidirectionalAnimatingPlot \<and>
   0 < resolution (scenario_window BidirectionalAnimatingPlot) \<and>
   1 \<le> POINTS_PER_CALL (fresh_world 2 BidirectionalAnimatingPlot) \<and>
   getattr (fresh_world 2) (scenario_window BidirectionalAnimatingPlot) ''x'' = [] \<and>
   getattr (fresh_world 2) (scenario_window BidirectionalAnimatingPlot) ''y'' = [] \<and>
   last (getattr (snd (for_range (Suc 5) (Bidirectional_body (scenario_window BidirectionalAnimatingPlot))
                         (fresh_world 2)))
           (scenario_window BidirectionalAnimatingPlot) ''x'') = 5 / 2"
proof -
  let ?w = "scenario_window BidirectionalAnimatingPlot"
  let ?s = "fresh_world 2"
  have h1: "klass ?w = BidirectionalAnimatingPlot" by (simp add: scenario_window_def)
  have h2: "0 < resolution ?w" by (simp add: scenario_window_def)
  have h3: "1 \<le> POINTS_PER_CALL (?s BidirectionalAnimatingPlot)" by (simp add: fresh_world_def)
  have h4: "getattr ?s ?w ''x'' = []" by (simp add: fresh_world_def getattr_def)
  have h5: "getattr ?s ?w ''y'' = []" by (simp add: fresh_world_def getattr_def)
  have p: "POINTS_PER_CALL (?s BidirectionalAnimatingPlot) = 2" by (simp add: fresh_world_def)
  from bidirectional_step_width [OF h1 h2 h3 h4 h5, of 0]
  have "last (getattr (snd (for_range (Suc 5) (Bidirectional_body ?w) ?s)) ?w ''x'') =
        real (2 * 5) / real_of_int (resolution ?w)"
    by blast
  then have "last (getattr (snd (for_range (Suc 5) (Bidirectional_body ?w) ?s)) ?w ''x'') = 5 / 2"
    by (simp add: scenario_window_def)
  with h1 h2 h3 h4 h5 show ?thesis by blast
qed

text \<open>
  C8, as amended. With \<open>f(t) = t\<^sup>2\<close>, resolution 4 and two points per call, one call on
  a \<^verbatim>\<open>BidirectionalAnimatingPlot\<close> returns four points, for \<open>t = 0\<close> and \<open>t = 1/2\<close> and
  their negations: \<open>xs = [-1/2, 0, 0, 1/2]\<close> and \<open>ys = [1/4, 0, 0, 1/4]\<close>.
\<close>

theorem bidirectional_scenario:
  "fst (calculate_xy (scenario_window BidirectionalAnimatingPlot) (fresh_world 2)) =
     Inr ([- (1 / 2), 0, 0, 1 / 2], [1 / 4, 0, 0, 1 / 4])"
  by (simp add: scenario_window_def fresh_world_def calculate_xy_def
      BidirectionalAnimatingPlot_calculate_xy_def Bidirectional_body_def truediv_def
      attr_append_def attr_insert0_def getattr_def numeral_2_eq_2)

text \<open>C8 as stated fails: the call does not return the three points \<open>[-1/2, 0, 1/2]\<close>.\<close>

theorem bidirectional_scenario_counterexample:
  "fst (calculate_xy (scenario_window BidirectionalAnimatingPlot) (fresh_world 2)) \<noteq>
     Inr ([- (1 / 2), 0, 1 / 2], [1 / 4, 0, 1 / 4])"
  by (simp add: scenario_window_def fresh_world_def calculate_xy_def
      BidirectionalAnimatingPlot_calculate_xy_def Bidirectional_body_def truediv_def
      attr_append_def attr_insert0_def getattr_def numeral_2_eq_2)

section \<open>Full-range strategy\<close>

lemma linspace_length:
  "0 \<le> n \<Longrightarrow> \<exists>xs. linspace a b n = Inr xs \<and> int (length xs) = n"
  by (simp add: linspace_def Let_def)

lemma linspace_ends:
  assumes "1 < n"
  shows "\<exists>xs. linspace a b n = Inr xs \<and> hd xs = a \<and> last xs = b"
proof -
  let ?ys = "map (\<lambda>v. v + a) (map (\<lambda>i. real i * ((b - a) / real_of_int (n - 1))) [0..<nat n])"
  have l: "linspace a b n = Inr (?ys[nat n - 1 := b])"
    using assms by (simp add: linspace_def Let_def)
  have len: "length (?ys[nat n - 1 := b]) = nat n" by simp
  have ne: "?ys[nat n - 1 := b] \<noteq> []" using assms len by (metis length_0_conv nat_0_iff not_less zero_less_one less_trans)
  have "hd (?ys[nat n - 1 := b]) = (?ys[nat n - 1 := b]) ! 0"
    by (rule hd_conv_nth [OF ne])
  also have "\<dots> = ?ys ! 0" using assms by (simp del: map_map)
  also have "\<dots> = a" using assms by simp
  finally have h: "hd (?ys[nat n - 1 := b]) = a" .
  have "last (?ys[nat n - 1 := b]) = (?ys[nat n - 1 := b]) ! (nat n - 1)"
    using last_conv_nth [OF ne] by (simp only: len)
  also have "\<dots> = b" using assms by simp
  finally have "last (?ys[nat n - 1 := b]) = b" .
  with l h show ?thesis by blast
qed

lemma linspace_one: "linspace a b 1 = Inr [a]"
  by (simp add: linspace_def Let_def)

lemma linspace_degenerate:
  assumes "1 \<le> n"
  shows "linspace a a n = Inr (replicate (nat n) a)"
proof -
  let ?g = "\<lambda>i. if n - 1 > 0 then real i * ((a - a) / real_of_int (n - 1)) else real i * (a - a)"
  have g: "?g i + a = a" for i by simp
  have "map (\<lambda>v. v + a) (map ?g [0..<nat n]) = map (\<lambda>i. ?g i + a) [0..<nat n]"
    by (simp add: comp_def)
  also have "\<dots> = map (\<lambda>i. a) [0..<nat n]"
    by (simp only: g)
  also have "\<dots> = replicate (nat n) a"
    by (simp add: map_replicate_const)
  finally have m: "map (\<lambda>v. v + a) (map ?g [0..<nat n]) = replicate (nat n) a" .
  have u: "(replicate (nat n) a)[nat n - 1 := a] = replicate (nat n) a"
    by (simp add: list_eq_iff_nth_eq nth_list_update)
  have "linspace a a n = Inr (if n > 1 then (map (\<lambda>v. v + a) (map ?g [0..<nat n]))[nat n - 1 := a]
                              else map (\<lambda>v. v + a) (map ?g [0..<nat n]))"
    using assms unfolding linspace_def Let_def by simp
  also have "\<dots> = Inr (replicate (nat n) a)"
    unfolding m u by simp
  finally show ?thesis .
qed

text \<open>
  C5. For a view range \<open>[a, b]\<close> and a resolution \<open>n \<ge> 0\<close>, \<^verbatim>\<open>calculate_xy\<close> on an
  \<^verbatim>\<open>InfinitePlot\<close> returns exactly \<open>n\<close> points, each y the function at its x; for
  \<open>n > 1\<close> the first x is \<open>a\<close> and the last x is \<open>b\<close>; for \<open>n = 1\<close> the single point is at
  \<open>a\<close>. The state is left as it was.
\<close>

theorem full_range_sample:
  assumes "klass w = InfinitePlot"
      and "0 \<le> resolution w"
      and "xlim w = (a, b)"
  shows "\<exists>xs. calculate_xy w s = (Inr (xs, map (func w) xs), s) \<and>
              int (length xs) = resolution w \<and>
              (1 < resolution w \<longrightarrow> hd xs = a \<and> last xs = b) \<and>
              (resolution w = 1 \<longrightarrow> xs = [a])"
proof -
  from linspace_length [OF assms(2), of a b]
  obtain xs where xs: "linspace a b (resolution w) = Inr xs" and len: "int (length xs) = resolution w"
    by blast
  have c: "calculate_xy w s = (Inr (xs, map (func w) xs), s)"
    by (simp add: calculate_xy_def InfinitePlot_calculate_xy_def assms(1,3) xs)
  have e: "hd xs = a \<and> last xs = b" if "1 < resolution w"
    using linspace_ends [OF that, of a b] xs by simp
  have o: "xs = [a]" if "resolution w = 1"
    using linspace_one [of a b] xs that by simp
  from c len e o show ?thesis by blast
qed

theorem full_range_sample_witness:
  "klass (scenario_window InfinitePlot) = InfinitePlot \<and>
   0 \<le> resolution (scenario_window InfinitePlot) \<and>
   xlim (scenario_window InfinitePlot) = (0, 1) \<and>
   (\<exists>xs. fst (calculate_xy (scenario_window InfinitePlot) initial_world) =
            Inr (xs, map (\<lambda>t. t * t) xs) \<and>
          length xs = 4 \<and> hd xs = 0 \<and> last xs = 1)"
proof -
  let ?w = "scenario_window InfinitePlot"
  have h1: "klass ?w = InfinitePlot" by (simp add: scenario_window_def)
  have h2: "0 \<le> resolution ?w" by (simp add: scenario_window_def)
  have h3: "xlim ?w = (0, 1)" by (simp add: scenario_window_def)
  have r: "resolution ?w = 4" and f: "func ?w = (\<lambda>t. t * t)"
    by (simp_all add: scenario_window_def)
  from full_range_sample [OF h1 h2 h3, of initial_world]
  obtain xs where "calculate_xy ?w initial_world = (Inr (xs, map (func ?w) xs), initial_world)"
    and "int (length xs) = resolution ?w"
    and "1 < resolution ?w \<longrightarrow> hd xs = 0 \<and> last xs = 1"
    by blast
  then have "fst (calculate_xy ?w initial_world) = Inr (xs, map (\<lambda>t. t * t) xs) \<and>
             length xs = 4 \<and> hd xs = 0 \<and> last xs = 1"
    by (simp add: r f)
  with h1 h2 h3 show ?thesis by blast
qed

text \<open>
  C9. When the view bounds coincide, \<open>min = max = a\<close>, \<^verbatim>\<open>calculate_xy\<close> on an
  \<^verbatim>\<open>InfinitePlot\<close> with resolution \<open>n \<ge> 1\<close> raises nothing: it returns the zero-width
  range of \<open>n\<close> points, all at \<open>a\<close>.
\<close>

theorem full_range_degenerate_view:
  assumes "klass w = InfinitePlot"
      and "1 \<le> resolution w"
      and "xlim w = (a, a)"
  shows "calculate_xy w s =
           (Inr (replicate (nat (resolution w)) a, replicate (nat (resolution w)) (func w a)), s)"
  by (simp add: calculate_xy_def InfinitePlot_calculate_xy_def assms(1,3)
        linspace_degenerate [OF assms(2)])

theorem full_range_degenerate_view_witness:
  "klass (scenario_window InfinitePlot\<lparr>xlim := (2, 2)\<rparr>) = InfinitePlot \<and>
   1 \<le> resolution (scenario_window InfinitePlot\<lparr>xlim := (2, 2)\<rparr>) \<and>
   xlim (scenario_window InfinitePlot\<lparr>xlim := (2, 2)\<rparr>) = (2, 2) \<and>
   calculate_xy (scenario_window InfinitePlot\<lparr>xlim := (2, 2)\<rparr>) initial_world =
     (Inr ([2, 2, 2, 2], [4, 4, 4, 4]), initial_world)"
proof -
  let ?w = "scenario_window InfinitePlot\<lparr>xlim := (2, 2)\<rparr>"
  have h1: "klass ?w = InfinitePlot" by (simp add: scenario_window_def)
  have h2: "1 \<le> resolution ?w" by (simp add: scenario_window_def)
  have h3: "xlim ?w = (2, 2)" by (simp add: scenario_window_def)
  have r: "nat (resolution ?w) = Suc (Suc (Suc (Suc 0)))" and f: "func ?w 2 = 4"
    by (simp_all add: scenario_window_def)
  from full_range_degenerate_view [OF h1 h2 h3, of initial_world]
  have "calculate_xy ?w initial_world = (Inr ([2, 2, 2, 2], [4, 4, 4, 4]), initial_world)"
    by (simp only: r f replicate.simps)
  with h1 h2 h3 show ?thesis by blast
qed

text \<open>
  C7. \<^verbatim>\<open>calculate_xy\<close> on an \<^verbatim>\<open>InfinitePlot\<close> leaves the state as it was, a second call
  right after the first returns the same, and so does a call on any \<^verbatim>\<open>InfinitePlot\<close>
  with the same view bounds, resolution and function, in any state: the result depends on
  nothing else. This holds whatever \<open>linspace\<close> computes.
\<close>

theorem full_range_stateless:
  assumes "klass w = InfinitePlot"
  shows "snd (calculate_xy w s) = s \<and>
         fst (calculate_xy w (snd (calculate_xy w s))) = fst (calculate_xy w s) \<and>
         (\<forall>w' s'. klass w' = InfinitePlot \<and> xlim w' = xlim w \<and>
                  resolution w' = resolution w \<and> func w' = func w \<longrightarrow>
                  fst (calculate_xy w' s') = fst (calculate_xy w s))"
proof -
  have st: "snd (calculate_xy v t) = t" if "klass v = InfinitePlot" for v t
    using that
    by (simp add: calculate_xy_def InfinitePlot_calculate_xy_def split: prod.splits sum.splits)
  have eq: "fst (calculate_xy v t) = fst (calculate_xy w s)"
    if "klass v = InfinitePlot" "xlim v = xlim w" "resolution v = resolution w" "func v = func w"
    for v t
    using that assms
    by (simp add: calculate_xy_def InfinitePlot_calculate_xy_def split: prod.splits sum.splits)
  from st [OF assms] eq show ?thesis by simp
qed

theorem full_range_stateless_witness:
  "klass (scenario_window InfinitePlot) = InfinitePlot \<and>
   snd (calculate_xy (scenario_window InfinitePlot) initial_world) = initial_world \<and>
   fst (calculate_xy (scenario_window InfinitePlot\<lparr>xdata := [], ydata := []\<rparr>) (fresh_world 2)) =
   fst (calculate_xy (scenario_window InfinitePlot) initial_world)"
proof -
  let ?w = "scenario_window InfinitePlot"
  let ?v = "scenario_window InfinitePlot\<lparr>xdata := [], ydata := []\<rparr>"
  have h1: "klass ?w = InfinitePlot" by (simp add: scenario_window_def)
  have v: "klass ?v = InfinitePlot \<and> xlim ?v = xlim ?w \<and>
           resolution ?v = resolution ?w \<and> func ?v = func ?w"
    by (simp add: scenario_window_def)
  from full_range_stateless [OF h1, of initial_world]
  have a: "snd (calculate_xy ?w initial_world) = initial_world"
    and b: "\<forall>w' s'. klass w' = InfinitePlot \<and> xlim w' = xlim ?w \<and>
                    resolution w' = resolution ?w \<and> func w' = func ?w \<longrightarrow>
                    fst (calculate_xy w' s') = fst (calculate_xy ?w initial_world)"
    by blast+
  from b v have "fst (calculate_xy ?v (fresh_world 2)) = fst (calculate_xy ?w initial_world)"
    by blast
  with h1 a show ?thesis by blast
qed

section \<open>Construction\<close>

lemma for_range_raises:
  assumes "body s = (Inl e, s)" and "0 < n"
  shows "for_range n body s = (Inl e, s)"
proof -
  from assms(2) obtain m where "n = Suc m" by (cases n) simp_all
  with assms(1) show ?thesis by simp
qed

lemma growing_calculate_xy_zero:
  assumes "c = ForwardAnimatingPlot \<or> c = BidirectionalAnimatingPlot"
      and "klass w = c" and "resolution w = 0" and "1 \<le> POINTS_PER_CALL (s c)"
  shows "calculate_xy w s = (Inl ZeroDivisionError, s)"
proof -
  have n: "0 < nat (POINTS_PER_CALL (s c))" using assms(4) by simp
  have f: "Forward_body w s = (Inl ZeroDivisionError, s)"
    by (simp add: Forward_body_def truediv_def assms(3))
  have b: "Bidirectional_body w s = (Inl ZeroDivisionError, s)"
    by (simp add: Bidirectional_body_def truediv_def assms(3))
  from assms(1) show ?thesis
  proof
    assume c: "c = ForwardAnimatingPlot"
    show ?thesis
      using for_range_raises [of "Forward_body w" s ZeroDivisionError, OF f n]
      by (simp add: calculate_xy_def ForwardAnimatingPlot_calculate_xy_def assms(2) c)
  next
    assume c: "c = BidirectionalAnimatingPlot"
    show ?thesis
      using for_range_raises [of "Bidirectional_body w" s ZeroDivisionError, OF b n]
      by (simp add: calculate_xy_def BidirectionalAnimatingPlot_calculate_xy_def assms(2) c)
  qed
qed

lemma growing_calculate_xy_nonzero:
  assumes "klass w = ForwardAnimatingPlot \<or> klass w = BidirectionalAnimatingPlot"
      and "resolution w \<noteq> 0"
  shows "\<exists>r. fst (calculate_xy w s) = Inr r"
  using assms(1)
proof
  assume c: "klass w = ForwardAnimatingPlot"
  let ?l = "for_range (nat (POINTS_PER_CALL (s ForwardAnimatingPlot))) (Forward_body w) s"
  have "fst ?l = Inr ()" by (rule Forward_loop(1) [OF assms(2)])
  then show ?thesis
    by (cases ?l) (simp add: calculate_xy_def ForwardAnimatingPlot_calculate_xy_def c)
next
  assume c: "klass w = BidirectionalAnimatingPlot"
  let ?l = "for_range (nat (POINTS_PER_CALL (s BidirectionalAnimatingPlot))) (Bidirectional_body w) s"
  have "fst ?l = Inr ()" by (rule Bidirectional_loop(1) [OF assms(2)])
  then show ?thesis
    by (cases ?l) (simp add: calculate_xy_def BidirectionalAnimatingPlot_calculate_xy_def c)
qed

lemma update_raises:
  "calculate_xy w s = (Inl e, s') \<Longrightarrow> update w s = (Inl e, s')"
  by (simp add: update_def)

lemma update_returns:
  "fst (calculate_xy w s) = Inr r \<Longrightarrow> \<exists>w'. fst (update w s) = Inr w' \<and> resolution w' = resolution w"
  by (cases "calculate_xy w s") (simp add: update_def split: prod.splits)

lemma update_full_range_empty:
  assumes "klass w = InfinitePlot" and "resolution w = 0"
  shows "update w s = (Inr (w\<lparr>xdata := [], ydata := []\<rparr>), s)"
  using assms
  by (cases "xlim w")
     (simp add: update_def calculate_xy_def InfinitePlot_calculate_xy_def linspace_def)

lemma update_full_range_negative:
  assumes "klass w = InfinitePlot" and "resolution w < 0"
  shows "update w s = (Inl ValueError, s)"
  using assms
  by (cases "xlim w")
     (simp add: update_def calculate_xy_def InfinitePlot_calculate_xy_def linspace_def)

lemma py_int_float_zero: "py_int (PyFloat x) = Inr 0 \<longleftrightarrow> - 1 < x \<and> x < 1"
proof (cases "0 \<le> x")
  case True
  then have "py_int (PyFloat x) = Inr 0 \<longleftrightarrow> \<lfloor>x\<rfloor> = 0" by simp
  also have "\<dots> \<longleftrightarrow> 0 \<le> x \<and> x < 1" by (simp add: floor_eq_iff)
  finally show ?thesis using True by linarith
next
  case False
  then have "py_int (PyFloat x) = Inr 0 \<longleftrightarrow> \<lceil>x\<rceil> = 0" by simp
  also have "\<dots> \<longleftrightarrow> - 1 < x \<and> x \<le> 0" by (simp add: ceiling_eq_iff)
  finally show ?thesis using False by linarith
qed

lemma py_int_float_negative:
  assumes "x \<le> - 1"
  shows "\<exists>n<0. py_int (PyFloat x) = Inr n"
proof -
  from assms have "\<lceil>x\<rceil> < 0" by (simp add: ceiling_less_iff)
  moreover from assms have "py_int (PyFloat x) = Inr \<lceil>x\<rceil>" by simp
  ultimately show ?thesis by blast
qed

text \<open>
  C6, as amended. \<^verbatim>\<open>__init__\<close> does not validate the resolution: it converts it with
  \<^verbatim>\<open>int\<close>, and an error of that conversion ends the construction; otherwise the first
  sample decides, for a function that has a value at every point sampled. With at least
  one point per call, constructing a \<^verbatim>\<open>ForwardAnimatingPlot\<close> or a
  \<^verbatim>\<open>BidirectionalAnimatingPlot\<close> fails when the converted resolution is zero, with the
  \<^verbatim>\<open>ZeroDivisionError\<close> of the first division and the state unchanged, and completes when
  it is not zero, so for the negative ones too. Constructing an \<^verbatim>\<open>InfinitePlot\<close> fails
  when the converted resolution is negative, with the error of \<open>linspace\<close>, and completes
  with an empty sample when it is zero. A float is converted to zero exactly when it lies
  strictly between \<open>-1\<close> and \<open>1\<close>, and to a negative int when it is at most \<open>-1\<close>.
\<close>

theorem construction_resolution:
  "(\<forall>e. py_int r = Inl e \<longrightarrow> init c f r borders view s = (Inl e, s)) \<and>
   (\<forall>n. py_int r = Inr n \<longrightarrow>
      ((c = ForwardAnimatingPlot \<or> c = BidirectionalAnimatingPlot) \<and>
       1 \<le> POINTS_PER_CALL (s c) \<longrightarrow>
         (if n = 0 then init c f r borders view s = (Inl ZeroDivisionError, s)
          else \<exists>w. fst (init c f r borders view s) = Inr w \<and> resolution w = n)) \<and>
      (c = InfinitePlot \<and> n \<le> 0 \<longrightarrow>
         (if n = 0
          then \<exists>w. init c f r borders view s = (Inr w, s) \<and> xdata w = [] \<and> ydata w = []
          else init c f r borders view s = (Inl ValueError, s)))) \<and>
   (py_int (PyFloat x) = Inr 0 \<longleftrightarrow> - 1 < x \<and> x < 1) \<and>
   (x \<le> - 1 \<longrightarrow> (\<exists>n<0. py_int (PyFloat x) = Inr n))"
proof -
  let ?w = "\<lambda>n. \<lparr>klass = c, func = f, resolution = n, xlim = view,
             xdata = [fst (fst borders), snd (fst borders)],
             ydata = [fst (snd borders), snd (snd borders)]\<rparr>"
  have e: "init c f r borders view s = (Inl e, s)" if "py_int r = Inl e" for e
    using that by (simp add: init_def)
  have i: "init c f r borders view s = update (?w n) s" if "py_int r = Inr n" for n
    using that by (simp add: init_def)
  have z: "init c f r borders view s = (Inl ZeroDivisionError, s)"
    if "py_int r = Inr n" "c = ForwardAnimatingPlot \<or> c = BidirectionalAnimatingPlot"
       "1 \<le> POINTS_PER_CALL (s c)" "n = 0" for n
  proof -
    have "calculate_xy (?w n) s = (Inl ZeroDivisionError, s)"
      using growing_calculate_xy_zero [of c "?w n" s] that(2,3,4) by simp
    then show ?thesis unfolding i [OF that(1)] by (rule update_raises)
  qed
  have nz: "\<exists>w. fst (init c f r borders view s) = Inr w \<and> resolution w = n"
    if "py_int r = Inr n" "c = ForwardAnimatingPlot \<or> c = BidirectionalAnimatingPlot" "n \<noteq> 0"
    for n
  proof -
    have "\<exists>v. fst (calculate_xy (?w n) s) = Inr v"
      by (rule growing_calculate_xy_nonzero) (simp_all add: that(2,3))
    then obtain v where "fst (calculate_xy (?w n) s) = Inr v" ..
    from update_returns [OF this] show ?thesis unfolding i [OF that(1)] by simp
  qed
  have empty: "\<exists>w. init c f r borders view s = (Inr w, s) \<and> xdata w = [] \<and> ydata w = []"
    if "py_int r = Inr n" "c = InfinitePlot" "n = 0" for n
    unfolding i [OF that(1)]
    using update_full_range_empty [of "?w n" s] that(2,3) by simp
  have neg: "init c f r borders view s = (Inl ValueError, s)"
    if "py_int r = Inr n" "c = InfinitePlot" "n < 0" for n
    unfolding i [OF that(1)]
    using update_full_range_negative [of "?w n" s] that(2,3) by simp
  have conv: "\<forall>n. py_int r = Inr n \<longrightarrow>
      ((c = ForwardAnimatingPlot \<or> c = BidirectionalAnimatingPlot) \<and>
       1 \<le> POINTS_PER_CALL (s c) \<longrightarrow>
         (if n = 0 then init c f r borders view s = (Inl ZeroDivisionError, s)
          else \<exists>w. fst (init c f r borders view s) = Inr w \<and> resolution w = n)) \<and>
      (c = InfinitePlot \<and> n \<le> 0 \<longrightarrow>
         (if n = 0
          then \<exists>w. init c f r borders view s = (Inr w, s) \<and> xdata w = [] \<and> ydata w = []
          else init c f r borders view s = (Inl ValueError, s)))"
  proof (intro allI impI conjI)
    fix n
    assume n: "py_int r = Inr n"
    assume g: "(c = ForwardAnimatingPlot \<or> c = BidirectionalAnimatingPlot) \<and>
               1 \<le> POINTS_PER_CALL (s c)"
    show "if n = 0 then init c f r borders view s = (Inl ZeroDivisionError, s)
          else \<exists>w. fst (init c f r borders view s) = Inr w \<and> resolution w = n"
    proof (cases "n = 0")
      case True
      with z [OF n] g show ?thesis by simp
    next
      case False
      with nz [OF n] g show ?thesis by simp
    qed
  next
    fix n
    assume n: "py_int r = Inr n"
    assume g: "c = InfinitePlot \<and> n \<le> 0"
    show "if n = 0
          then \<exists>w. init c f r borders view s = (Inr w, s) \<and> xdata w = [] \<and> ydata w = []
          else init c f r borders view s = (Inl ValueError, s)"
    proof (cases "n = 0")
      case True
      with empty [OF n] g show ?thesis by simp
    next
      case False
      with g have "n < 0" by simp
      with neg [OF n] g False show ?thesis by simp
    qed
  qed
  from e conv py_int_float_zero [of x] py_int_float_negative [of x] show ?thesis
    by blast
qed

theorem construction_resolution_witness:
  "(ForwardAnimatingPlot = ForwardAnimatingPlot \<or> ForwardAnimatingPlot = BidirectionalAnimatingPlot) \<and>
   1 \<le> POINTS_PER_CALL (initial_world ForwardAnimatingPlot) \<and>
   - 1 < (- (1 / 2) :: real) \<and> (- (1 / 2) :: real) < 1 \<and>
   py_int (PyFloat (- (1 / 2))) = Inr 0 \<and>
   init ForwardAnimatingPlot (\<lambda>t. t * t) (PyFloat (- (1 / 2))) ((0, 4), (0, 16)) (0, 4)
        initial_world =
     (Inl ZeroDivisionError, initial_world) \<and>
   py_int (PyFloatInf True) = Inl OverflowError \<and>
   init ForwardAnimatingPlot (\<lambda>t. t * t) (PyFloatInf True) ((0, 4), (0, 16)) (0, 4)
        initial_world =
     (Inl OverflowError, initial_world) \<and>
   InfinitePlot = InfinitePlot \<and> (- 3 :: int) \<le> 0 \<and>
   init InfinitePlot (\<lambda>t. t * t) (PyInt (- 3)) ((0, 4), (0, 16)) (0, 4) initial_world =
     (Inl ValueError, initial_world)"
proof -
  have p: "1 \<le> POINTS_PER_CALL (initial_world ForwardAnimatingPlot)"
    by (simp add: initial_world_def fresh_world_def)
  have x: "- 1 < (- (1 / 2) :: real) \<and> (- (1 / 2) :: real) < 1" by simp
  note T = construction_resolution
         [of "PyFloat (- (1 / 2))" ForwardAnimatingPlot "\<lambda>t. t * t" "((0, 4), (0, 16))" "(0, 4)"
             initial_world "- (1 / 2)"]
  from T x have c: "py_int (PyFloat (- (1 / 2))) = Inr 0" by blast
  from T c p
  have a: "init ForwardAnimatingPlot (\<lambda>t. t * t) (PyFloat (- (1 / 2))) ((0, 4), (0, 16)) (0, 4)
             initial_world = (Inl ZeroDivisionError, initial_world)"
    by simp
  have o: "py_int (PyFloatInf True) = Inl OverflowError" by simp
  from construction_resolution
         [of "PyFloatInf True" ForwardAnimatingPlot "\<lambda>t. t * t" "((0, 4), (0, 16))" "(0, 4)"
             initial_world 0] o
  have b: "init ForwardAnimatingPlot (\<lambda>t. t * t) (PyFloatInf True) ((0, 4), (0, 16)) (0, 4)
             initial_world = (Inl OverflowError, initial_world)"
    by blast
  have i: "py_int (PyInt (- 3)) = Inr (- 3)" by simp
  from construction_resolution
         [of "PyInt (- 3)" InfinitePlot "\<lambda>t. t * t" "((0, 4), (0, 16))" "(0, 4)"
             initial_world 0] i
  have d: "init InfinitePlot (\<lambda>t. t * t) (PyInt (- 3)) ((0, 4), (0, 16)) (0, 4) initial_world =
           (Inl ValueError, initial_world)"
    by simp
  from p x c a o b d show ?thesis by simp
qed

text \<open>
  C6 as stated fails: constructing a \<^verbatim>\<open>ForwardAnimatingPlot\<close> with resolution \<open>-1\<close> in
  the initial state completes, and its line then runs backwards from 0.
\<close>

theorem construction_negative_resolution_counterexample:
  "fst (init ForwardAnimatingPlot (\<lambda>t. t * t) (PyInt (- 1)) ((0, 4), (0, 1400)) (0, 4)
          initial_world) =
     Inr \<lparr>klass = ForwardAnimatingPlot, func = (\<lambda>t. t * t), resolution = - 1, xlim = (0, 4),
          xdata = [0, - 1, - 2, - 3, - 4, - 5, - 6, - 7],
          ydata = [0, 1, 4, 9, 16, 25, 36, 49]\<rparr>"
  by (simp add: init_def update_def calculate_xy_def ForwardAnimatingPlot_calculate_xy_def
        Forward_body_def truediv_def attr_append_def getattr_def initial_world_def
        fresh_world_def eval_nat_numeral)

section \<open>The lists belong to the class\<close>

lemma snd_calculate_xy_growing:
  "klass w = ForwardAnimatingPlot \<Longrightarrow>
     snd (calculate_xy w s) =
       snd (for_range (nat (POINTS_PER_CALL (s ForwardAnimatingPlot))) (Forward_body w) s)"
  "klass w = BidirectionalAnimatingPlot \<Longrightarrow>
     snd (calculate_xy w s) =
       snd (for_range (nat (POINTS_PER_CALL (s BidirectionalAnimatingPlot))) (Bidirectional_body w) s)"
  by (simp_all add: calculate_xy_def ForwardAnimatingPlot_calculate_xy_def
        BidirectionalAnimatingPlot_calculate_xy_def split: prod.splits sum.splits)

lemma sample_grows_the_class_list:
  assumes "klass a = ForwardAnimatingPlot \<or> klass a = BidirectionalAnimatingPlot"
      and "klass b = klass a"
      and "resolution a \<noteq> 0"
      and "1 \<le> POINTS_PER_CALL (s (klass a))"
  shows "length (getattr s b ''x'') < length (getattr (snd (calculate_xy a s)) b ''x'')"
proof -
  have same: "getattr t b ''x'' = getattr t a ''x''" for t
    by (simp add: getattr_def assms(2))
  from assms(1) show ?thesis
  proof
    assume c: "klass a = ForwardAnimatingPlot"
    with assms(4) have "0 < nat (POINTS_PER_CALL (s ForwardAnimatingPlot))" by simp
    then show ?thesis
      unfolding same snd_calculate_xy_growing(1) [OF c] Forward_loop(2) [OF assms(3)]
      by simp
  next
    assume c: "klass a = BidirectionalAnimatingPlot"
    with assms(4) have "0 < nat (POINTS_PER_CALL (s BidirectionalAnimatingPlot))" by simp
    then show ?thesis
      unfolding same snd_calculate_xy_growing(2) [OF c] Bidirectional_loop(2) [OF assms(3)]
      by simp
  qed
qed

text \<open>
  C4 does not hold of the code. Two \<^verbatim>\<open>ForwardAnimatingPlot\<close> windows, one at resolution 4
  and one at resolution 8: in the initial state the second one's \<^verbatim>\<open>x\<close> is empty, and
  after one sample of the first it holds the first one's eight points. When both are
  constructed in turn, the line of the second shows sixteen points, the first eight taken
  at the resolution of the first window.
\<close>

theorem shared_class_lists:
  "getattr initial_world (scenario_window ForwardAnimatingPlot\<lparr>resolution := 8\<rparr>) ''x'' = [] \<and>
   getattr (snd (calculate_xy (scenario_window ForwardAnimatingPlot) initial_world))
     (scenario_window ForwardAnimatingPlot\<lparr>resolution := 8\<rparr>) ''x'' =
     [0, 1 / 4, 1 / 2, 3 / 4, 1, 5 / 4, 3 / 2, 7 / 4] \<and>
   (case init ForwardAnimatingPlot (\<lambda>t. t * t) (PyInt 4) ((0, 4), (0, 16)) (0, 4) initial_world of
      (Inl e, s1) \<Rightarrow> False
    | (Inr a, s1) \<Rightarrow>
        (case init ForwardAnimatingPlot (\<lambda>t. t * t) (PyInt 8) ((0, 4), (0, 16)) (0, 4) s1 of
           (Inl e, s2) \<Rightarrow> False
         | (Inr b, s2) \<Rightarrow>
             xdata b = [0, 1 / 4, 1 / 2, 3 / 4, 1, 5 / 4, 3 / 2, 7 / 4,
                        1, 9 / 8, 5 / 4, 11 / 8, 3 / 2, 13 / 8, 7 / 4, 15 / 8]))"
  by (simp add: scenario_window_def init_def update_def calculate_xy_def
        ForwardAnimatingPlot_calculate_xy_def
        Forward_body_def truediv_def attr_append_def getattr_def initial_world_def
        fresh_world_def eval_nat_numeral)

end
